theory Spec2Isabelle
  imports Main
begin

section \<open>Strings of the program\<close>

text \<open>
  A Python \<open>str\<close> is a sequence of Unicode code points, so it is modelled as a list of
  natural numbers, one per code point. ASCII literals of the source are written with
  \<open>lit\<close>, which maps each character to its code point.
\<close>

type_synonym str = "nat list"

definition lit :: "string \<Rightarrow> str" where
  "lit s = map of_char s"

text \<open>
  \<open>str.isspace\<close> for one code point: the characters Python's \<open>str.strip()\<close> removes
  when called without an argument.
\<close>

definition isspace :: "nat \<Rightarrow> bool" where
  "isspace c =
     ((9 \<le> c \<and> c \<le> 13) \<or> (28 \<le> c \<and> c \<le> 32) \<or> c = 133 \<or> c = 160 \<or> c = 5760
      \<or> (8192 \<le> c \<and> c \<le> 8202) \<or> c = 8232 \<or> c = 8233 \<or> c = 8239 \<or> c = 8287
      \<or> c = 12288)"

definition strip :: "str \<Rightarrow> str" where
  "strip s = rev (dropWhile isspace (rev (dropWhile isspace s)))"

text \<open>\<open>' '.join(command)\<close>.\<close>

fun join_space :: "str list \<Rightarrow> str" where
  "join_space [] = []"
| "join_space [x] = x"
| "join_space (x # y # ys) = x @ [32] @ join_space (y # ys)"

text \<open>The decimal text of an integer, as an f-string renders \<open>process.returncode\<close>.\<close>

fun digits :: "nat \<Rightarrow> str" where
  "digits n = (if n < 10 then [48 + n] else digits (n div 10) @ [48 + n mod 10])"

declare digits.simps [simp del]

definition str_of_int :: "int \<Rightarrow> str" where
  "str_of_int i = (if i < 0 then 45 # digits (nat (- i)) else digits (nat i))"

text \<open>
  Reading a decimal text back: the number a non-empty sequence of the digits \<open>0\<close> to
  \<open>9\<close> denotes, with an optional leading minus sign; anything else denotes no number.
\<close>

definition is_digit :: "nat \<Rightarrow> bool" where
  "is_digit c = (48 \<le> c \<and> c \<le> 57)"

definition nat_of_digits :: "str \<Rightarrow> nat option" where
  "nat_of_digits ds =
     (if ds \<noteq> [] \<and> list_all is_digit ds
      then Some (foldl (\<lambda>n c. 10 * n + (c - 48)) 0 ds) else None)"

definition int_of_str :: "str \<Rightarrow> int option" where
  "int_of_str s =
     (case s of
        [] \<Rightarrow> None
      | c # cs \<Rightarrow>
          if c = 45 then map_option (\<lambda>n. - int n) (nat_of_digits cs)
          else map_option int (nat_of_digits s))"

text \<open>
  \<open>os.path.join(initial_dir, '')\<close> on a POSIX system: the path with one trailing
  separator, unless it is empty or ends with one already.
\<close>

definition path_join_empty :: "str \<Rightarrow> str" where
  "path_join_empty p = (if p = [] \<or> last p = 47 then p else p @ [47])"

section \<open>The operating environment\<close>

text \<open>
  What the program asks of the operating system is a parameter of the model:
  \<open>os.name\<close>, \<open>shutil.which\<close>, the kind of a path (for \<open>os.path.exists\<close> and
  \<open>os.path.isdir\<close>), the outcome of \<open>os.makedirs\<close> and the outcome of
  \<open>subprocess.run\<close> with captured text output and \<open>check=False\<close>.
\<close>

datatype path_kind = Absent | Directory | NonDirectory

datatype makedirs_outcome =
    Created
  | RaisedOSError str
  | RaisedOther str

datatype run_outcome =
    CompletedProcess int str str
  | RaisedFileNotFoundError str
  | RaisedException str

record system =
  os_name :: str
  which :: "str \<Rightarrow> str option"
  kind_of :: "str \<Rightarrow> path_kind"
  makedirs :: "str \<Rightarrow> makedirs_outcome"
  subprocess_run :: "str list \<Rightarrow> run_outcome"

definition path_exists :: "system \<Rightarrow> str \<Rightarrow> bool" where
  "path_exists sys p = (kind_of sys p \<noteq> Absent)"

definition path_isdir :: "system \<Rightarrow> str \<Rightarrow> bool" where
  "path_isdir sys p = (kind_of sys p = Directory)"

text \<open>Truth value of an optional string: \<open>None\<close> and the empty string are false.\<close>

fun truthy :: "str option \<Rightarrow> bool" where
  "truthy None = False"
| "truthy (Some s) = (s \<noteq> [])"

section \<open>The dialog selector\<close>

text \<open>
  The command list built by \<open>get_native_dialog_selection\<close> (lines 27 to 48), with the
  flag \<open>tool_found\<close>: zenity first, kdialog second, else no tool.
\<close>

definition zenity_command :: "str \<Rightarrow> str \<Rightarrow> str option \<Rightarrow> str list" where
  "zenity_command prompt file_type initial_dir =
     [lit ''zenity'', lit ''--file-selection'', lit ''--title'', prompt]
     @ (if file_type = lit ''directory'' then [lit ''--directory''] else [])
     @ (case initial_dir of
          None \<Rightarrow> []
        | Some d \<Rightarrow> if d \<noteq> [] then [lit ''--filename'', path_join_empty d] else [])"

definition kdialog_command :: "str \<Rightarrow> str \<Rightarrow> str option \<Rightarrow> str list" where
  "kdialog_command prompt file_type initial_dir =
     [lit ''kdialog'', lit ''--title'', prompt]
     @ (if file_type = lit ''directory'' then [lit ''--getexistingdirectory'']
        else [lit ''--getopenfilename''])
     @ (case initial_dir of
          None \<Rightarrow> []
        | Some d \<Rightarrow> if d \<noteq> [] then [d] else [])"

definition dialog_command :: "system \<Rightarrow> str \<Rightarrow> str \<Rightarrow> str option \<Rightarrow> bool \<times> str list" where
  "dialog_command sys prompt file_type initial_dir =
     (if truthy (which sys (lit ''zenity''))
        then (True, zenity_command prompt file_type initial_dir)
      else if truthy (which sys (lit ''kdialog''))
        then (True, kdialog_command prompt file_type initial_dir)
      else (False, []))"

text \<open>
  The selector returns the pair \<open>(selected_path, status_code)\<close>; the second component
  of the model's result is what the function printed (the diagnostic of line 70).
  An exception of \<open>subprocess.run\<close> is caught by \<open>except Exception\<close>, whatever its class.
\<close>

definition dialog_diagnostic :: "str list \<Rightarrow> str \<Rightarrow> str" where
  "dialog_diagnostic command e =
     lit ''Error running native dialog command '' @ [39] @ join_space command @ [39]
     @ lit '': '' @ e"

definition get_native_dialog_selection ::
  "system \<Rightarrow> str \<Rightarrow> str \<Rightarrow> str option \<Rightarrow> (str option \<times> int) \<times> str list" where
  "get_native_dialog_selection sys prompt file_type initial_dir =
     (if os_name sys \<noteq> lit ''posix'' then ((None, - 1), [])
      else
        (case dialog_command sys prompt file_type initial_dir of
           (tool_found, command) \<Rightarrow>
             if \<not> tool_found then ((None, - 1), [])
             else if command \<noteq> [] then
               (case subprocess_run sys command of
                  CompletedProcess returncode out err \<Rightarrow>
                    (let selected_path = strip out in
                     if returncode = 0 \<and> selected_path \<noteq> [] then ((Some selected_path, 0), [])
                     else if returncode = 1 then ((None, 1), [])
                     else ((None, - 1), []))
                | RaisedFileNotFoundError e \<Rightarrow> ((None, - 1), [dialog_diagnostic command e])
                | RaisedException e \<Rightarrow> ((None, - 1), [dialog_diagnostic command e]))
             else ((None, - 1), [])))"

text \<open>
  The tri-state result of the specification, read off the returned pair the way the
  three browse handlers read it: status 0 is a selection, status 1 a cancellation,
  status -1 no dialog.
\<close>

datatype dialog_result = Selected str | Cancelled | Unavailable

fun dialog_result_of :: "str option \<times> int \<Rightarrow> dialog_result option" where
  "dialog_result_of (Some p, status) = (if status = 0 then Some (Selected p) else None)"
| "dialog_result_of (None, status) =
     (if status = 1 then Some Cancelled
      else if status = - 1 then Some Unavailable
      else None)"

definition select :: "system \<Rightarrow> str \<Rightarrow> str \<Rightarrow> str option \<Rightarrow> dialog_result option" where
  "select sys prompt file_type initial_dir =
     dialog_result_of (fst (get_native_dialog_selection sys prompt file_type initial_dir))"

text \<open>The selector reaches the execution of a helper: POSIX, and one of the two found.\<close>

definition reaches_helper :: "system \<Rightarrow> bool" where
  "reaches_helper sys =
     (os_name sys = lit ''posix'' \<and>
      (truthy (which sys (lit ''zenity'')) \<or> truthy (which sys (lit ''kdialog''))))"

text \<open>The command the selector runs when it reaches a helper.\<close>

definition helper_command :: "system \<Rightarrow> str \<Rightarrow> str \<Rightarrow> str option \<Rightarrow> str list" where
  "helper_command sys prompt file_type initial_dir =
     snd (dialog_command sys prompt file_type initial_dir)"

section \<open>The application window\<close>

text \<open>
  The part of \<open>IL2CppDumperApp\<close> the handlers read and write: the three entry fields,
  the state of the run button and the output log, a sequence of inserted texts with
  their tags.
\<close>

datatype tag = red | green | blue | info | warning

datatype button_state = normal | disabled

record app =
  exec_entry :: str
  meta_entry :: str
  output_entry :: str
  run_button :: button_state
  output_log :: "(str \<times> tag option) list"

text \<open>\<open>_log_message\<close>: the message and a newline are inserted at the end of the log.\<close>

definition log_message :: "app \<Rightarrow> str \<Rightarrow> tag option \<Rightarrow> app" where
  "log_message a message tg = a\<lparr>output_log := output_log a @ [(message @ [10], tg)]\<rparr>"

text \<open>
  The worker thread never touches the window: it queues callbacks with
  \<open>self.after(0, ...)\<close>, which the main loop runs in the order queued.

  The source calls \<open>run_button.configure\<close> in two ways. Line 233 passes the state as a
  keyword, \<open>configure(state="normal")\<close>. Line 204 queues \<open>configure\<close> with one positional
  argument, the dictionary \<open>{"state": "normal"}\<close>. The button is a \<open>CTkButton\<close>, whose
  method is \<open>configure(self, require_redraw=False, **kwargs)\<close>: a positional dictionary
  is bound to \<open>require_redraw\<close>, no option is given, and the state of the button is
  left as it was.
\<close>

datatype configure_args = PositionalDict button_state | KeywordState button_state

datatype callback = LogMessage str tag | ConfigureRunButton configure_args

fun run_callback :: "callback \<Rightarrow> app \<Rightarrow> app" where
  "run_callback (LogMessage message tg) a = log_message a message (Some tg)"
| "run_callback (ConfigureRunButton (KeywordState st)) a = a\<lparr>run_button := st\<rparr>"
| "run_callback (ConfigureRunButton (PositionalDict st)) a = a"

definition run_callbacks :: "callback list \<Rightarrow> app \<Rightarrow> app" where
  "run_callbacks cbs a = fold run_callback cbs a"

section \<open>The background worker\<close>

text \<open>
  What the worker does, in order: callbacks queued for the main loop, the call of
  \<open>os.makedirs\<close> and the call of \<open>subprocess.run\<close>. The worker ends by returning or
  by an exception nothing catches.
\<close>

datatype effect = After callback | Makedirs str | SubprocessRun "str list"

datatype worker_end = Returned | Uncaught str

definition dumper_command :: "str \<Rightarrow> str \<Rightarrow> str \<Rightarrow> str list" where
  "dumper_command exec_file meta_file output_dir =
     [lit ''il2cppdumper'', exec_file, meta_file, output_dir]"

definition internal_error_message :: str where
  "internal_error_message = lit ''Internal Error: Fields were not validated.''"

definition created_warning :: "str \<Rightarrow> str" where
  "created_warning output_dir =
     lit ''Warning: Output directory doesn'' @ [39]
     @ lit ''t exist, creating output directory: '' @ output_dir"

definition create_error :: "str \<Rightarrow> str \<Rightarrow> str" where
  "create_error output_dir e =
     lit ''Error: creating output directory '' @ [39] @ output_dir @ [39] @ lit '': '' @ e"

definition preparing_message :: "str list \<Rightarrow> str" where
  "preparing_message command =
     lit ''Preparing to run: '' @ [96] @ join_space command @ [96]"

definition stderr_message :: "str \<Rightarrow> str" where
  "stderr_message err = lit ''Error: (stderr): '' @ err"

text \<open>The success text ends with the three characters the source file has there.\<close>

definition success_message :: str where
  "success_message = lit ''Command completed successfully! '' @ [226, 339, 168]"

definition failed_message :: "int \<Rightarrow> str" where
  "failed_message returncode = lit ''Command failed with exit code '' @ str_of_int returncode"

definition not_found_message :: str where
  "not_found_message =
     lit ''Error: '' @ [39] @ lit ''il2cppdumper'' @ [39]
     @ lit '' command not found. Please ensure it'' @ [39]
     @ lit ''s installed and in your system'' @ [39] @ lit ''s PATH.''"

definition unexpected_message :: "str \<Rightarrow> str" where
  "unexpected_message e = lit ''An unexpected error occurred: '' @ e"

text \<open>Lines 218 to 231: what is logged for each outcome of \<open>subprocess.run\<close>.\<close>

definition report_process :: "run_outcome \<Rightarrow> callback list" where
  "report_process r =
     (case r of
        CompletedProcess returncode out err \<Rightarrow>
          (if out \<noteq> [] then [LogMessage out info] else [])
          @ (if err \<noteq> [] then [LogMessage (stderr_message err) red] else [])
          @ [if returncode = 0 then LogMessage success_message green
             else LogMessage (failed_message returncode) red]
      | RaisedFileNotFoundError e \<Rightarrow> [LogMessage not_found_message red]
      | RaisedException e \<Rightarrow> [LogMessage (unexpected_message e) red])"

text \<open>Lines 207 to 233: the command, its announcement, its run, and the \<open>finally\<close>.\<close>

definition invoke_tool :: "system \<Rightarrow> str \<Rightarrow> str \<Rightarrow> str \<Rightarrow> effect list" where
  "invoke_tool sys exec_file meta_file output_dir =
     (let command = dumper_command exec_file meta_file output_dir in
      [After (LogMessage (preparing_message command) blue), SubprocessRun command]
      @ map After (report_process (subprocess_run sys command))
      @ [After (ConfigureRunButton (KeywordState normal))])"

definition run_dumper_async :: "system \<Rightarrow> app \<Rightarrow> effect list \<times> worker_end" where
  "run_dumper_async sys a =
     (let exec_file = exec_entry a; meta_file = meta_entry a; output_dir = output_entry a in
      if exec_file = [] \<or> meta_file = [] \<or> output_dir = [] then
        ([After (LogMessage internal_error_message red)], Returned)
      else if \<not> path_isdir sys output_dir then
        (case makedirs sys output_dir of
           Created \<Rightarrow>
             ([Makedirs output_dir, After (LogMessage (created_warning output_dir) warning)]
              @ invoke_tool sys exec_file meta_file output_dir, Returned)
         | RaisedOSError e \<Rightarrow>
             ([Makedirs output_dir,
               After (LogMessage (create_error output_dir e) red),
               After (ConfigureRunButton (PositionalDict normal))], Returned)
         | RaisedOther e \<Rightarrow> ([Makedirs output_dir], Uncaught e))
      else (invoke_tool sys exec_file meta_file output_dir, Returned))"

text \<open>The callbacks among the effects, and the window once the main loop has run them.\<close>

fun callbacks_of :: "effect list \<Rightarrow> callback list" where
  "callbacks_of [] = []"
| "callbacks_of (After cb # es) = cb # callbacks_of es"
| "callbacks_of (e # es) = callbacks_of es"

definition after_worker :: "system \<Rightarrow> app \<Rightarrow> app" where
  "after_worker sys a = run_callbacks (callbacks_of (fst (run_dumper_async sys a))) a"

section \<open>The run handler\<close>

text \<open>
  \<open>run_dumper\<close>, the handler of the run button: the window it leaves, and whether it
  started the worker thread.
\<close>

definition all_fields_message :: str where
  "all_fields_message = lit ''Error: All fields must be filled!''"

definition exec_not_found_message :: "str \<Rightarrow> str" where
  "exec_not_found_message exec_file =
     lit ''Error: Executable file not found at '' @ [39] @ exec_file @ [39]"

definition meta_not_found_message :: "str \<Rightarrow> str" where
  "meta_not_found_message meta_file =
     lit ''Error: Metadata file not found at '' @ [39] @ meta_file @ [39]"

definition run_dumper :: "system \<Rightarrow> app \<Rightarrow> app \<times> bool" where
  "run_dumper sys a =
     (let exec_file = exec_entry a; meta_file = meta_entry a; output_dir = output_entry a in
      if exec_file = [] \<or> meta_file = [] \<or> output_dir = [] then
        (log_message a all_fields_message (Some red), False)
      else if \<not> path_exists sys exec_file then
        (log_message a (exec_not_found_message exec_file) (Some red), False)
      else if \<not> path_exists sys meta_file then
        (log_message a (meta_not_found_message meta_file) (Some red), False)
      else (a\<lparr>run_button := disabled, output_log := []\<rparr>, True))"

text \<open>The three synchronous checks of the handler, taken together.\<close>

definition prechecks_pass :: "system \<Rightarrow> app \<Rightarrow> bool" where
  "prechecks_pass sys a =
     (exec_entry a \<noteq> [] \<and> meta_entry a \<noteq> [] \<and> output_entry a \<noteq> [] \<and>
      path_exists sys (exec_entry a) \<and> path_exists sys (meta_entry a))"

section \<open>Concrete environments\<close>

text \<open>
  A POSIX system with the helper named \<open>helper\<close> installed (and no other), a game
  directory holding the two input files, and given outcomes of \<open>os.makedirs\<close> and
  \<open>subprocess.run\<close>.
\<close>

definition game_dir :: str where "game_dir = lit ''/game''"
definition game_exec :: str where "game_exec = lit ''/game/GameAssembly.dll''"
definition game_meta :: str where "game_meta = lit ''/game/global-metadata.dat''"
definition dump_dir :: str where "dump_dir = lit ''/game/out/dump''"

definition posix_system :: "str \<Rightarrow> makedirs_outcome \<Rightarrow> run_outcome \<Rightarrow> system" where
  "posix_system helper mk r =
     \<lparr>os_name = lit ''posix'',
      which = (\<lambda>n. if n = helper then Some (lit ''/usr/bin/'' @ n) else None),
      kind_of = (\<lambda>p. if p = game_dir then Directory
                       else if p = game_exec \<or> p = game_meta then NonDirectory
                       else Absent),
      makedirs = (\<lambda>p. mk),
      subprocess_run = (\<lambda>c. r)\<rparr>"

text \<open>The same machine reporting another operating system.\<close>

definition other_system :: "str \<Rightarrow> makedirs_outcome \<Rightarrow> run_outcome \<Rightarrow> system" where
  "other_system helper mk r = (posix_system helper mk r)\<lparr>os_name := lit ''nt''\<rparr>"

definition missing_meta :: str where "missing_meta = lit ''/game/missing.dat''"

definition permission_denied :: str where
  "permission_denied = lit ''[Errno 13] Permission denied''"

definition window ::
  "str \<Rightarrow> str \<Rightarrow> str \<Rightarrow> button_state \<Rightarrow> (str \<times> tag option) list \<Rightarrow> app" where
  "window e m out st lg =
     \<lparr>exec_entry = e, meta_entry = m, output_entry = out, run_button = st,
      output_log = lg\<rparr>"

definition earlier_log :: "(str \<times> tag option) list" where
  "earlier_log = [(lit ''Selected executable: /game/GameAssembly.dll'' @ [10], Some info)]"

lemmas env_defs = posix_system_def other_system_def window_def earlier_log_def game_dir_def
  game_exec_def game_meta_def dump_dir_def missing_meta_def permission_denied_def lit_def

section \<open>The dialog selector: results\<close>

text \<open>
  C2. When the selector reaches the execution of a helper (a POSIX system with zenity or
  kdialog on the search path), the outcome of the helper process decides the result:
  exit status 0 with a non-empty stripped standard output is \<open>Selected\<close> of the stripped
  output; exit status 1 is \<open>Cancelled\<close>; any other exit status, exit status 0 with an
  empty stripped output, and any exception of the execution are \<open>Unavailable\<close>.
\<close>

theorem dialog_result_mapping:
  assumes "reaches_helper sys"
  shows "(\<forall>returncode out err.
            subprocess_run sys (helper_command sys prompt file_type initial_dir)
              = CompletedProcess returncode out err \<longrightarrow>
            (returncode = 0 \<and> strip out \<noteq> [] \<longrightarrow>
               select sys prompt file_type initial_dir = Some (Selected (strip out))) \<and>
            (returncode = 1 \<longrightarrow> select sys prompt file_type initial_dir = Some Cancelled) \<and>
            (returncode \<noteq> 1 \<and> (returncode \<noteq> 0 \<or> strip out = []) \<longrightarrow>
               select sys prompt file_type initial_dir = Some Unavailable)) \<and>
         (\<forall>e. subprocess_run sys (helper_command sys prompt file_type initial_dir)
                 = RaisedFileNotFoundError e \<or>
               subprocess_run sys (helper_command sys prompt file_type initial_dir)
                 = RaisedException e \<longrightarrow>
               select sys prompt file_type initial_dir = Some Unavailable)"
  using assms
  by (auto simp: reaches_helper_def select_def get_native_dialog_selection_def
      helper_command_def dialog_command_def zenity_command_def kdialog_command_def)

text \<open>
  The mapping at five helper runs: a selection, a cancellation, an empty output, an
  unexpected exit status and an exception.
\<close>

theorem dialog_result_mapping_witness:
  "select (posix_system (lit ''zenity'') Created
       (CompletedProcess 0 (lit ''/game/GameAssembly.dll'' @ [10]) []))
     (lit ''Select Executable File'') (lit ''file'') None = Some (Selected game_exec) \<and>
   select (posix_system (lit ''kdialog'') Created (CompletedProcess 1 [] []))
     (lit ''Select Output Directory'') (lit ''directory'') None = Some Cancelled \<and>
   select (posix_system (lit ''zenity'') Created (CompletedProcess 0 [10] []))
     (lit ''Select Executable File'') (lit ''file'') None = Some Unavailable \<and>
   select (posix_system (lit ''zenity'') Created (CompletedProcess 5 (lit ''/game'') []))
     (lit ''Select Executable File'') (lit ''file'') None = Some Unavailable \<and>
   select (posix_system (lit ''kdialog'') Created (RaisedException (lit ''Exec format error'')))
     (lit ''Select Executable File'') (lit ''file'') None = Some Unavailable"
proof -
  let ?p = "lit ''Select Executable File''" and ?f = "lit ''file''"
  let ?s1 = "posix_system (lit ''zenity'') Created
               (CompletedProcess 0 (lit ''/game/GameAssembly.dll'' @ [10]) [])"
  let ?s2 = "posix_system (lit ''kdialog'') Created (CompletedProcess 1 [] [])"
  let ?s3 = "posix_system (lit ''zenity'') Created (CompletedProcess 0 [10] [])"
  let ?s4 = "posix_system (lit ''zenity'') Created (CompletedProcess 5 (lit ''/game'') [])"
  let ?s5 = "posix_system (lit ''kdialog'') Created (RaisedException (lit ''Exec format error''))"
  have r: "reaches_helper ?s1" "reaches_helper ?s2" "reaches_helper ?s3" "reaches_helper ?s4"
    "reaches_helper ?s5"
    by (simp_all add: reaches_helper_def env_defs)
  have s: "strip (lit ''/game/GameAssembly.dll'' @ [10]) = game_exec" "strip [10] = []"
    by (simp_all add: strip_def isspace_def env_defs)
  have n: "game_exec \<noteq> []"
    by (simp add: env_defs)
  from dialog_result_mapping [OF r(1), of ?p ?f None]
    dialog_result_mapping [OF r(2), of "lit ''Select Output Directory''" "lit ''directory''" None]
    dialog_result_mapping [OF r(3), of ?p ?f None]
    dialog_result_mapping [OF r(4), of ?p ?f None]
    dialog_result_mapping [OF r(5), of ?p ?f None]
  show ?thesis
    by (simp add: s n posix_system_def)
qed

text \<open>
  C7. On a system that is not POSIX, or where neither zenity nor kdialog is on the search
  path, the selector returns \<open>(None, -1)\<close>, that is \<open>Unavailable\<close>, and prints nothing;
  it returns a value, so no exception reaches the caller.
\<close>

theorem selector_unavailable_without_helper:
  assumes "os_name sys \<noteq> lit ''posix'' \<or>
           (\<not> truthy (which sys (lit ''zenity'')) \<and> \<not> truthy (which sys (lit ''kdialog'')))"
  shows "get_native_dialog_selection sys prompt file_type initial_dir = ((None, - 1), []) \<and>
         select sys prompt file_type initial_dir = Some Unavailable"
  using assms
  by (auto simp: select_def get_native_dialog_selection_def dialog_command_def)

theorem selector_unavailable_without_helper_witness:
  "get_native_dialog_selection
     (other_system (lit ''zenity'') Created (CompletedProcess 0 (lit ''/game'') []))
     (lit ''Select Output Directory'') (lit ''directory'') None = ((None, - 1), []) \<and>
   get_native_dialog_selection
     (posix_system (lit ''yad'') Created (CompletedProcess 0 (lit ''/game'') []))
     (lit ''Select Output Directory'') (lit ''directory'') None = ((None, - 1), [])"
proof -
  let ?s1 = "other_system (lit ''zenity'') Created (CompletedProcess 0 (lit ''/game'') [])"
  let ?s2 = "posix_system (lit ''yad'') Created (CompletedProcess 0 (lit ''/game'') [])"
  have h1: "os_name ?s1 \<noteq> lit ''posix'' \<or>
            (\<not> truthy (which ?s1 (lit ''zenity'')) \<and> \<not> truthy (which ?s1 (lit ''kdialog'')))"
    by (simp add: env_defs)
  have h2: "os_name ?s2 \<noteq> lit ''posix'' \<or>
            (\<not> truthy (which ?s2 (lit ''zenity'')) \<and> \<not> truthy (which ?s2 (lit ''kdialog'')))"
    by (simp add: env_defs)
  from selector_unavailable_without_helper [OF h1] selector_unavailable_without_helper [OF h2]
  show ?thesis by simp
qed

text \<open>
  C8. Every pair the selector returns is \<open>(p, 0)\<close> with \<open>p\<close> a non-empty string,
  \<open>(None, 1)\<close> or \<open>(None, -1)\<close>: the path is present exactly when the status is 0, and
  the status is 0, 1 or -1.
\<close>

theorem selector_result_shape:
  "((\<exists>p. p \<noteq> [] \<and> fst (get_native_dialog_selection sys prompt file_type initial_dir) = (Some p, 0))
     \<or> fst (get_native_dialog_selection sys prompt file_type initial_dir) = (None, 1)
     \<or> fst (get_native_dialog_selection sys prompt file_type initial_dir) = (None, - 1)) \<and>
   ((fst (fst (get_native_dialog_selection sys prompt file_type initial_dir)) \<noteq> None)
      = (snd (fst (get_native_dialog_selection sys prompt file_type initial_dir)) = 0)) \<and>
   snd (fst (get_native_dialog_selection sys prompt file_type initial_dir)) \<in> {0, 1, - 1}"
  by (auto simp: get_native_dialog_selection_def Let_def split: prod.splits run_outcome.splits)

theorem selector_result_shape_witness:
  "snd (fst (get_native_dialog_selection
     (posix_system (lit ''zenity'') Created (CompletedProcess 0 (lit ''/game'') []))
     (lit ''Select Output Directory'') (lit ''directory'') None)) \<in> {0, 1, - 1}"
  using selector_result_shape
    [of "posix_system (lit ''zenity'') Created (CompletedProcess 0 (lit ''/game'') [])"
        "lit ''Select Output Directory''" "lit ''directory''" None]
  by simp

section \<open>The run handler: results\<close>

text \<open>
  C3. When one of the three fields is empty, the handler starts no worker, appends exactly
  one entry to the log, the error that all fields must be filled, and changes nothing
  else.
\<close>

theorem run_dumper_empty_field:
  assumes "exec_entry a = [] \<or> meta_entry a = [] \<or> output_entry a = []"
  shows "run_dumper sys a =
           (a\<lparr>output_log := output_log a @ [(all_fields_message @ [10], Some red)]\<rparr>, False)"
  using assms by (auto simp: run_dumper_def log_message_def)

theorem run_dumper_empty_field_witness:
  "run_dumper (posix_system (lit ''zenity'') Created (CompletedProcess 0 [] []))
     (window game_exec [] dump_dir normal earlier_log)
   = (window game_exec [] dump_dir normal
        (earlier_log @ [(all_fields_message @ [10], Some red)]), False)"
  using run_dumper_empty_field
    [of "window game_exec [] dump_dir normal earlier_log"
        "posix_system (lit ''zenity'') Created (CompletedProcess 0 [] [])"]
  by (simp add: window_def)

text \<open>
  C9. When a check of the handler fails (an empty field, a missing executable path, a
  missing metadata path), no worker is started and the window is the one before with a
  single error entry appended to the log. When all checks pass, the worker is started,
  with the log cleared and the run button disabled: the log is cleared in that case only.
\<close>

theorem run_dumper_log_frame:
  "(\<not> prechecks_pass sys a \<longrightarrow>
      \<not> snd (run_dumper sys a) \<and>
      (\<exists>message. fst (run_dumper sys a)
                   = a\<lparr>output_log := output_log a @ [(message, Some red)]\<rparr>)) \<and>
   (prechecks_pass sys a \<longrightarrow>
      snd (run_dumper sys a) \<and>
      fst (run_dumper sys a) = a\<lparr>run_button := disabled, output_log := []\<rparr>)"
  by (auto simp: run_dumper_def prechecks_pass_def log_message_def Let_def)

theorem run_dumper_log_frame_witness:
  "run_dumper (posix_system (lit ''zenity'') Created (CompletedProcess 0 [] []))
     (window game_exec game_meta dump_dir normal earlier_log)
   = (window game_exec game_meta dump_dir disabled [], True) \<and>
   snd (run_dumper (posix_system (lit ''zenity'') Created (CompletedProcess 0 [] []))
     (window game_exec missing_meta dump_dir normal earlier_log)) = False \<and>
   (\<exists>message.
      fst (run_dumper (posix_system (lit ''zenity'') Created (CompletedProcess 0 [] []))
        (window game_exec missing_meta dump_dir normal earlier_log))
      = window game_exec missing_meta dump_dir normal (earlier_log @ [(message, Some red)]))"
proof -
  let ?sys = "posix_system (lit ''zenity'') Created (CompletedProcess 0 [] [])"
  have pass: "prechecks_pass ?sys (window game_exec game_meta dump_dir normal earlier_log)"
    by (simp add: prechecks_pass_def path_exists_def env_defs)
  have fail: "\<not> prechecks_pass ?sys (window game_exec missing_meta dump_dir normal earlier_log)"
    by (simp add: prechecks_pass_def path_exists_def env_defs)
  from pass fail
    run_dumper_log_frame [of ?sys "window game_exec game_meta dump_dir normal earlier_log"]
    run_dumper_log_frame [of ?sys "window game_exec missing_meta dump_dir normal earlier_log"]
  show ?thesis
    by (simp add: window_def prod_eq_iff)
qed

text \<open>
  C10, amended. The checks of the handler test that a path exists, not what it is: when
  the three fields are non-empty and the executable path and the metadata path both exist,
  one of them being a directory, the checks pass and the worker is started.
\<close>

theorem run_dumper_accepts_directories:
  assumes "exec_entry a \<noteq> []" and "meta_entry a \<noteq> []" and "output_entry a \<noteq> []"
    and "kind_of sys (exec_entry a) \<noteq> Absent" and "kind_of sys (meta_entry a) \<noteq> Absent"
    and "kind_of sys (exec_entry a) = Directory \<or> kind_of sys (meta_entry a) = Directory"
  shows "run_dumper sys a = (a\<lparr>run_button := disabled, output_log := []\<rparr>, True)"
  using assms by (simp add: run_dumper_def path_exists_def)

theorem run_dumper_accepts_directories_witness:
  "run_dumper (posix_system (lit ''zenity'') Created (CompletedProcess 0 [] []))
     (window game_dir game_meta dump_dir normal earlier_log)
   = (window game_dir game_meta dump_dir disabled [], True)"
proof -
  let ?sys = "posix_system (lit ''zenity'') Created (CompletedProcess 0 [] [])"
  let ?a = "window game_dir game_meta dump_dir normal earlier_log"
  have "exec_entry ?a \<noteq> []" and "meta_entry ?a \<noteq> []" and "output_entry ?a \<noteq> []"
    and "kind_of ?sys (exec_entry ?a) \<noteq> Absent" and "kind_of ?sys (meta_entry ?a) \<noteq> Absent"
    and "kind_of ?sys (exec_entry ?a) = Directory \<or> kind_of ?sys (meta_entry ?a) = Directory"
    by (simp_all add: env_defs)
  from run_dumper_accepts_directories [OF this] show ?thesis
    by (simp add: window_def)
qed

text \<open>
  C10 as written asks only that one of the two paths is an existing directory. With the
  executable path a directory and the metadata path missing, the handler reports the
  missing metadata file and starts no worker.
\<close>

theorem run_dumper_directory_counterexample:
  "kind_of (posix_system (lit ''zenity'') Created (CompletedProcess 0 [] [])) game_dir = Directory \<and>
   run_dumper (posix_system (lit ''zenity'') Created (CompletedProcess 0 [] []))
     (window game_dir missing_meta dump_dir normal earlier_log)
   = (window game_dir missing_meta dump_dir normal
        (earlier_log @ [(meta_not_found_message missing_meta @ [10], Some red)]), False)"
  by (simp add: run_dumper_def path_exists_def log_message_def Let_def env_defs)

section \<open>The background worker: results\<close>

text \<open>
  C1. The claim is that every run of the worker ends by enabling the run button again.
  When the worker finds a field empty, it queues the internal error entry and returns:
  no callback enables the button, which stays disabled once the main loop has run the
  queue.
\<close>

theorem worker_internal_error_keeps_button_disabled:
  "run_dumper_async (posix_system (lit ''zenity'') Created (CompletedProcess 0 [] []))
     (window [] game_meta dump_dir disabled [])
     = ([After (LogMessage internal_error_message red)], Returned) \<and>
   after_worker (posix_system (lit ''zenity'') Created (CompletedProcess 0 [] []))
     (window [] game_meta dump_dir disabled [])
     = window [] game_meta dump_dir disabled [(internal_error_message @ [10], Some red)]"
  by (simp add: run_dumper_async_def after_worker_def run_callbacks_def window_def
      log_message_def)

text \<open>
  On every path that reaches the dump tool, the worker queues the keyword call that
  enables the run button exactly once, as its last effect, and the button is enabled
  once the main loop has run the queue.
\<close>

lemma worker_reenables_once:
  assumes "exec_entry a \<noteq> []" and "meta_entry a \<noteq> []" and "output_entry a \<noteq> []"
    and "path_isdir sys (output_entry a) \<or> makedirs sys (output_entry a) = Created"
  shows "count_list (fst (run_dumper_async sys a))
           (After (ConfigureRunButton (KeywordState normal))) = 1 \<and>
         last (fst (run_dumper_async sys a)) = After (ConfigureRunButton (KeywordState normal)) \<and>
         snd (run_dumper_async sys a) = Returned"
  using assms
  by (auto simp: run_dumper_async_def invoke_tool_def report_process_def Let_def
      split: makedirs_outcome.splits run_outcome.splits)

text \<open>
  C4. The claim is that, when the creation of the output directory fails, the worker
  logs the error, enables the run button again and ends without running the dump tool.
  With \<open>os.makedirs\<close> raising a permission error, the worker queues the error entry,
  which ends with the text of the error, and the call of line 204, and returns without
  running the tool; the call of line 204 gives the state in a positional dictionary, so
  the run button is still disabled once the main loop has run the queue.
\<close>

theorem worker_makedirs_failure_keeps_button_disabled:
  "run_dumper_async
     (posix_system (lit ''zenity'') (RaisedOSError permission_denied) (CompletedProcess 0 [] []))
     (window game_exec game_meta dump_dir disabled [])
   = ([Makedirs dump_dir,
       After (LogMessage
         (lit ''Error: creating output directory '' @ [39] @ dump_dir @ [39] @ lit '': ''
          @ permission_denied) red),
       After (ConfigureRunButton (PositionalDict normal))], Returned) \<and>
   after_worker
     (posix_system (lit ''zenity'') (RaisedOSError permission_denied) (CompletedProcess 0 [] []))
     (window game_exec game_meta dump_dir disabled [])
   = window game_exec game_meta dump_dir disabled
       [(lit ''Error: creating output directory '' @ [39] @ dump_dir @ [39] @ lit '': ''
         @ permission_denied @ [10], Some red)]"
  by (simp add: run_dumper_async_def after_worker_def run_callbacks_def log_message_def
      path_isdir_def create_error_def Let_def env_defs)

text \<open>
  What the worker does on that path, for every window and every \<open>OSError\<close>: the error
  entry ends with the text of the error, the dump tool is not run, and the state of the
  run button is the one before the worker.
\<close>

lemma worker_makedirs_failure_effects:
  assumes "exec_entry a \<noteq> []" and "meta_entry a \<noteq> []" and "output_entry a \<noteq> []"
    and "\<not> path_isdir sys (output_entry a)"
    and "makedirs sys (output_entry a) = RaisedOSError e"
  shows "run_dumper_async sys a =
           ([Makedirs (output_entry a),
             After (LogMessage
               (lit ''Error: creating output directory '' @ [39] @ output_entry a @ [39]
                @ lit '': '' @ e) red),
             After (ConfigureRunButton (PositionalDict normal))], Returned) \<and>
         (\<forall>command. SubprocessRun command \<notin> set (fst (run_dumper_async sys a))) \<and>
         run_button (after_worker sys a) = run_button a"
  using assms
  by (auto simp: run_dumper_async_def create_error_def after_worker_def run_callbacks_def
      log_message_def Let_def)

text \<open>
  C5, amended. When the three fields are non-empty, the output directory is not an existing
  directory and \<open>os.makedirs\<close> succeeds, the worker calls \<open>os.makedirs\<close> on it (which
  creates the missing parents too) before it runs the dump tool, and the warning entry,
  which ends with the name of the directory, is queued before the entry that announces
  the command.
\<close>

theorem worker_creates_output_dir:
  assumes "exec_entry a \<noteq> []" and "meta_entry a \<noteq> []" and "output_entry a \<noteq> []"
    and "\<not> path_isdir sys (output_entry a)"
    and "makedirs sys (output_entry a) = Created"
  shows "\<exists>before rest.
           created_warning (output_entry a) = before @ output_entry a \<and>
           fst (run_dumper_async sys a) =
             [Makedirs (output_entry a),
              After (LogMessage (created_warning (output_entry a)) warning),
              After (LogMessage (preparing_message
                (dumper_command (exec_entry a) (meta_entry a) (output_entry a))) blue),
              SubprocessRun (dumper_command (exec_entry a) (meta_entry a) (output_entry a))]
             @ rest"
  using assms
  by (auto simp: run_dumper_async_def created_warning_def invoke_tool_def Let_def)

theorem worker_creates_output_dir_witness:
  "\<exists>rest.
     fst (run_dumper_async
       (posix_system (lit ''zenity'') Created (CompletedProcess 0 [] []))
       (window game_exec game_meta dump_dir disabled []))
     = [Makedirs dump_dir,
        After (LogMessage (created_warning dump_dir) warning),
        After (LogMessage (preparing_message (dumper_command game_exec game_meta dump_dir)) blue),
        SubprocessRun (dumper_command game_exec game_meta dump_dir)] @ rest"
proof -
  let ?sys = "posix_system (lit ''zenity'') Created (CompletedProcess 0 [] [])"
  let ?a = "window game_exec game_meta dump_dir disabled []"
  have "exec_entry ?a \<noteq> []" and "meta_entry ?a \<noteq> []" and "output_entry ?a \<noteq> []"
    and "\<not> path_isdir ?sys (output_entry ?a)"
    and "makedirs ?sys (output_entry ?a) = Created"
    by (simp_all add: path_isdir_def env_defs)
  from worker_creates_output_dir [OF this] show ?thesis
    by (auto simp: window_def)
qed

text \<open>
  C5 as written speaks of every run in which the output directory does not exist. When
  \<open>os.makedirs\<close> raises an \<open>OSError\<close>, no directory is created, no warning entry is
  queued and the dump tool is not run.
\<close>

theorem worker_creates_output_dir_counterexample:
  "kind_of (posix_system (lit ''zenity'') (RaisedOSError permission_denied)
      (CompletedProcess 0 [] [])) dump_dir = Absent \<and>
   run_dumper_async
     (posix_system (lit ''zenity'') (RaisedOSError permission_denied) (CompletedProcess 0 [] []))
     (window game_exec game_meta dump_dir disabled [])
   = ([Makedirs dump_dir,
       After (LogMessage (create_error dump_dir permission_denied) red),
       After (ConfigureRunButton (PositionalDict normal))], Returned)"
  by (simp add: run_dumper_async_def path_isdir_def Let_def env_defs)

text \<open>
  The decimal text of an integer is made of digits, after a minus sign for a negative
  number, and reads back as that integer.
\<close>

lemma digits_is_digit: "digits n \<noteq> [] \<and> list_all is_digit (digits n)"
proof (induction n rule: digits.induct)
  case (1 n)
  show ?case
  proof (cases "n < 10")
    case True
    then show ?thesis
      by (subst digits.simps, subst (2) digits.simps) (simp add: is_digit_def)
  next
    case False
    have "n mod 10 < 10" by simp
    then have "is_digit (48 + n mod 10)"
      unfolding is_digit_def by linarith
    with False "1.IH" show ?thesis
      by (subst digits.simps, subst (2) digits.simps) simp
  qed
qed

lemma foldl_digits: "foldl (\<lambda>n c. 10 * n + (c - 48)) 0 (digits n) = n"
proof (induction n rule: digits.induct)
  case (1 n)
  show ?case
  proof (cases "n < 10")
    case True
    then show ?thesis
      by (subst digits.simps) simp
  next
    case False
    with "1.IH" show ?thesis
      by (subst digits.simps) simp
  qed
qed

lemma nat_of_digits_digits: "nat_of_digits (digits n) = Some n"
  using digits_is_digit [of n] by (simp add: nat_of_digits_def foldl_digits)

lemma int_of_str_str_of_int: "int_of_str (str_of_int i) = Some i"
proof (cases "i < 0")
  case True
  then show ?thesis
    by (simp add: int_of_str_def str_of_int_def nat_of_digits_digits)
next
  case False
  obtain c cs where d: "digits (nat i) = c # cs"
    using digits_is_digit [of "nat i"] by (cases "digits (nat i)") auto
  with digits_is_digit [of "nat i"] have "c \<noteq> 45"
    by (auto simp: is_digit_def)
  with False d nat_of_digits_digits [of "nat i"] show ?thesis
    by (simp add: int_of_str_def str_of_int_def)
qed

text \<open>
  C6. When the dump tool has run to completion, the worker queues, after the call and in
  this order: the standard output as one \<open>info\<close> entry if it is not empty; the standard
  error, after the prefix \<open>Error: (stderr): \<close>, as one \<open>red\<close> entry if it is not empty;
  one status entry, the \<open>green\<close> success text for exit status 0 and else a \<open>red\<close>
  entry that ends with the decimal text of the exit status; then the keyword call that
  enables the run button. The effects before the call hold no \<open>info\<close>, \<open>red\<close> or
  \<open>green\<close> entry, and the decimal text reads back as the exit status.
\<close>

theorem worker_reports_completed_process:
  assumes "exec_entry a \<noteq> []" and "meta_entry a \<noteq> []" and "output_entry a \<noteq> []"
    and "path_isdir sys (output_entry a) \<or> makedirs sys (output_entry a) = Created"
    and "subprocess_run sys (dumper_command (exec_entry a) (meta_entry a) (output_entry a))
           = CompletedProcess returncode out err"
  shows "fst (run_dumper_async sys a) =
           (if path_isdir sys (output_entry a) then []
            else [Makedirs (output_entry a),
                  After (LogMessage (created_warning (output_entry a)) warning)])
           @ [After (LogMessage (preparing_message
                (dumper_command (exec_entry a) (meta_entry a) (output_entry a))) blue),
              SubprocessRun (dumper_command (exec_entry a) (meta_entry a) (output_entry a))]
           @ (if out \<noteq> [] then [After (LogMessage out info)] else [])
           @ (if err \<noteq> [] then [After (LogMessage (lit ''Error: (stderr): '' @ err) red)]
              else [])
           @ [After (if returncode = 0
                     then LogMessage (lit ''Command completed successfully! '' @ [226, 339, 168])
                            green
                     else LogMessage (lit ''Command failed with exit code ''
                            @ str_of_int returncode) red)]
           @ [After (ConfigureRunButton (KeywordState normal))] \<and>
         int_of_str (str_of_int returncode) = Some returncode"
proof -
  have "int_of_str (str_of_int returncode) = Some returncode"
    by (rule int_of_str_str_of_int)
  with assms show ?thesis
    by (auto simp: run_dumper_async_def invoke_tool_def report_process_def Let_def
        stderr_message_def success_message_def failed_message_def)
qed

text \<open>
  Exit status 2 with the standard error \<open>bad header\<close> and no standard output, in a run
  that creates the output directory; and exit status 0 with a standard output, in a run
  whose output directory exists.
\<close>

theorem worker_reports_completed_process_witness:
  "fst (run_dumper_async
     (posix_system (lit ''zenity'') Created (CompletedProcess 2 [] (lit ''bad header'')))
     (window game_exec game_meta dump_dir disabled []))
   = [Makedirs dump_dir,
      After (LogMessage (created_warning dump_dir) warning),
      After (LogMessage (preparing_message (dumper_command game_exec game_meta dump_dir)) blue),
      SubprocessRun (dumper_command game_exec game_meta dump_dir),
      After (LogMessage (lit ''Error: (stderr): bad header'') red),
      After (LogMessage (lit ''Command failed with exit code 2'') red),
      After (ConfigureRunButton (KeywordState normal))] \<and>
   fst (run_dumper_async
     (posix_system (lit ''zenity'') Created (CompletedProcess 0 (lit ''Done!'') []))
     (window game_exec game_meta game_dir disabled []))
   = [After (LogMessage (preparing_message (dumper_command game_exec game_meta game_dir)) blue),
      SubprocessRun (dumper_command game_exec game_meta game_dir),
      After (LogMessage (lit ''Done!'') info),
      After (LogMessage (lit ''Command completed successfully! '' @ [226, 339, 168]) green),
      After (ConfigureRunButton (KeywordState normal))]"
proof -
  let ?s1 = "posix_system (lit ''zenity'') Created (CompletedProcess 2 [] (lit ''bad header''))"
  let ?a1 = "window game_exec game_meta dump_dir disabled []"
  let ?s2 = "posix_system (lit ''zenity'') Created (CompletedProcess 0 (lit ''Done!'') [])"
  let ?a2 = "window game_exec game_meta game_dir disabled []"
  have "exec_entry ?a1 \<noteq> []" and "meta_entry ?a1 \<noteq> []" and "output_entry ?a1 \<noteq> []"
    and "path_isdir ?s1 (output_entry ?a1) \<or> makedirs ?s1 (output_entry ?a1) = Created"
    and "subprocess_run ?s1
           (dumper_command (exec_entry ?a1) (meta_entry ?a1) (output_entry ?a1))
           = CompletedProcess 2 [] (lit ''bad header'')"
    by (simp_all add: path_isdir_def env_defs)
  from worker_reports_completed_process [OF this]
  have first: "fst (run_dumper_async ?s1 ?a1)
     = [Makedirs dump_dir,
        After (LogMessage (created_warning dump_dir) warning),
        After (LogMessage (preparing_message (dumper_command game_exec game_meta dump_dir)) blue),
        SubprocessRun (dumper_command game_exec game_meta dump_dir),
        After (LogMessage (lit ''Error: (stderr): bad header'') red),
        After (LogMessage (lit ''Command failed with exit code 2'') red),
        After (ConfigureRunButton (KeywordState normal))]"
    by (simp add: path_isdir_def str_of_int_def digits.simps env_defs)
  have "exec_entry ?a2 \<noteq> []" and "meta_entry ?a2 \<noteq> []" and "output_entry ?a2 \<noteq> []"
    and "path_isdir ?s2 (output_entry ?a2) \<or> makedirs ?s2 (output_entry ?a2) = Created"
    and "subprocess_run ?s2
           (dumper_command (exec_entry ?a2) (meta_entry ?a2) (output_entry ?a2))
           = CompletedProcess 0 (lit ''Done!'') []"
    by (simp_all add: path_isdir_def env_defs)
  from worker_reports_completed_process [OF this]
  have second: "fst (run_dumper_async ?s2 ?a2)
     = [After (LogMessage (preparing_message (dumper_command game_exec game_meta game_dir)) blue),
        SubprocessRun (dumper_command game_exec game_meta game_dir),
        After (LogMessage (lit ''Done!'') info),
        After (LogMessage (lit ''Command completed successfully! '' @ [226, 339, 168]) green),
        After (ConfigureRunButton (KeywordState normal))]"
    by (simp add: path_isdir_def env_defs)
  from first second show ?thesis by simp
qed

end
